theory Spec2Isabelle
  imports Complex_Main "HOL-Library.Sublist"
begin

section \<open>JavaScript values\<close>

text \<open>
  The component of \<^verbatim>\<open>CustomCoinChart.tsx\<close> reads the bodies of its HTTP responses
  through the type \<^verbatim>\<open>any\<close>: whatever \<^verbatim>\<open>JSON.parse\<close> produced reaches the
  code unchecked. The values are therefore modelled untyped. A number is modelled by its
  mathematical value: every operation of the component on numbers
  (\<^verbatim>\<open>toFixed\<close>, \<^verbatim>\<open>toLocaleString\<close>, comparison with zero) is defined by
  ECMAScript on the mathematical value of the number; that a number is one of the
  finitely many doubles is not modelled. \<open>Native f\<close> is a built-in function object,
  reached only as an inherited member.
\<close>

datatype js =
    Undefined
  | Null
  | JBool bool
  | Num real
  | Str string
  | Arr "js list"
  | Obj "(string \<times> js) list"
  | Native string

text \<open>
  What the code of the fetch cycle and the construction of the prompt can throw or be
  rejected with: the two rejections of axios, and the TypeError of a member access or a
  method call on a value that does not support it.
\<close>

datatype exn =
    CanceledError
  | AxiosError
  | TypeError

text \<open>\<^verbatim>\<open>v == null\<close>: the two values on which a member access throws.\<close>

fun nullish :: "js \<Rightarrow> bool" where
  "nullish Undefined = True"
| "nullish Null = True"
| "nullish _ = False"

text \<open>
  ToBoolean. The falsy values are \<^verbatim>\<open>undefined\<close>, \<^verbatim>\<open>null\<close>, \<^verbatim>\<open>false\<close>,
  \<^verbatim>\<open>0\<close> and the empty string (\<^verbatim>\<open>NaN\<close> is not a JSON value).
\<close>

fun truthy :: "js \<Rightarrow> bool" where
  "truthy Undefined = False"
| "truthy Null = False"
| "truthy (JBool b) = b"
| "truthy (Num x) = (x \<noteq> 0)"
| "truthy (Str s) = (s \<noteq> [])"
| "truthy _ = True"

text \<open>\<^verbatim>\<open>a || b\<close>\<close>

definition js_or :: "js \<Rightarrow> js \<Rightarrow> js" where
  "js_or a b = (if truthy a then a else b)"

subsection \<open>Decimal digits\<close>

definition digit_char :: "nat \<Rightarrow> char" where
  "digit_char d = ''0123456789'' ! d"

fun show_nat :: "nat \<Rightarrow> string" where
  "show_nat n =
     (if n < 10 then [digit_char n] else show_nat (n div 10) @ [digit_char (n mod 10)])"

declare show_nat.simps [simp del]

definition digit_val :: "char \<Rightarrow> nat" where
  "digit_val c =
     (case map_of (zip ''0123456789'' [0, 1, 2, 3, 4, 5, 6, 7, 8, 9]) c of
        Some d \<Rightarrow> d
      | None \<Rightarrow> 0)"

definition parse_nat :: "string \<Rightarrow> nat" where
  "parse_nat s = foldl (\<lambda>a c. 10 * a + digit_val c) 0 s"

subsection \<open>Member access\<close>

text \<open>
  An own property of a parsed JSON object; with a repeated key \<^verbatim>\<open>JSON.parse\<close> keeps
  the last occurrence.
\<close>

definition own :: "(string \<times> js) list \<Rightarrow> string \<Rightarrow> js" where
  "own kvs k = (case map_of (rev kvs) k of None \<Rightarrow> Undefined | Some v \<Rightarrow> v)"

text \<open>The element that the key \<open>k\<close> indexes, when \<open>k\<close> is the decimal form of an index.\<close>

definition at_key :: "'a list \<Rightarrow> string \<Rightarrow> 'a option" where
  "at_key xs k =
     (case filter (\<lambda>i. show_nat i = k) [0 ..< length xs] of
        [] \<Rightarrow> None
      | i # _ \<Rightarrow> Some (xs ! i))"

text \<open>
  \<^verbatim>\<open>v.k\<close> and \<^verbatim>\<open>v[k]\<close>. On \<^verbatim>\<open>undefined\<close> and \<^verbatim>\<open>null\<close> the access
  throws a TypeError. An object gives its own property, an array and a string give
  their \<^verbatim>\<open>length\<close> and their elements (the length of a string is counted in
  \<open>char\<close>s). Of the inherited members only \<^verbatim>\<open>small\<close> is modelled, a method of
  every string (\<^verbatim>\<open>String.prototype.small\<close>): it is the only inherited name among the
  fixed field names the component reads; the currency identifier, the one computed key,
  comes from the catalogue of supported currencies.
\<close>

fun getProp :: "js \<Rightarrow> string \<Rightarrow> exn + js" where
  "getProp Undefined k = Inl TypeError"
| "getProp Null k = Inl TypeError"
| "getProp (Obj kvs) k = Inr (own kvs k)"
| "getProp (Arr xs) k =
     Inr (if k = ''length'' then Num (of_nat (length xs))
          else (case at_key xs k of None \<Rightarrow> Undefined | Some v \<Rightarrow> v))"
| "getProp (Str s) k =
     Inr (if k = ''length'' then Num (of_nat (length s))
          else if k = ''small'' then Native ''small''
          else (case at_key s k of None \<Rightarrow> Undefined | Some c \<Rightarrow> Str [c]))"
| "getProp _ k = Inr Undefined"

text \<open>\<^verbatim>\<open>v?.k\<close> and \<^verbatim>\<open>v?.[k]\<close>: \<^verbatim>\<open>undefined\<close> on a nullish value, never a throw.\<close>

definition optProp :: "js \<Rightarrow> string \<Rightarrow> js" where
  "optProp v k = (case getProp v k of Inl _ \<Rightarrow> Undefined | Inr w \<Rightarrow> w)"

text \<open>
  \<^verbatim>\<open>String.prototype.toUpperCase\<close>, on the ASCII letters (a \<open>char\<close> is a byte; the
  bytes of other characters are left as they are).
\<close>

definition upper_char :: "char \<Rightarrow> char" where
  "upper_char c =
     (case map_of (zip ''abcdefghijklmnopqrstuvwxyz'' ''ABCDEFGHIJKLMNOPQRSTUVWXYZ'') c of
        Some u \<Rightarrow> u
      | None \<Rightarrow> c)"

definition toUpperCase :: "string \<Rightarrow> string" where
  "toUpperCase s = map upper_char s"

section \<open>The coin snapshot (lines 30-37 and 79-90)\<close>

text \<open>
  \<^verbatim>\<open>interface CoinDetails\<close>. The interface declares strings and numbers, but the fields
  are filled from the untyped response, so the record holds what the code stores;
  only \<open>symbol\<close> is a string by construction. \<open>typed_CoinDetails\<close> below says that a
  value has the declared types.
\<close>

record CoinDetails =
  cd_id :: js
  cd_name :: js
  cd_symbol :: string
  cd_image :: js
  current_price :: js
  price_change_percentage_24h :: js

text \<open>
  \<^verbatim>\<open>detailsRes.data.symbol.toUpperCase()\<close>: a TypeError unless the symbol is a string
  (a missing symbol is \<^verbatim>\<open>undefined\<close>; no other JSON value has the method).
\<close>

definition symbol_upper :: "js \<Rightarrow> exn + string" where
  "symbol_upper d =
     (case getProp d ''symbol'' of
        Inl e \<Rightarrow> Inl e
      | Inr (Str s) \<Rightarrow> Inr (toUpperCase s)
      | Inr _ \<Rightarrow> Inl TypeError)"

text \<open>
  Lines 80, 81 and 87: the three guarded reads. The first member access
  (\<^verbatim>\<open>detailsRes.data.market_data\<close>, \<^verbatim>\<open>detailsRes.data.image\<close>) is a plain one and
  throws on a nullish body; the rest of each chain is optional.
\<close>

definition currentPrice_of :: "string \<Rightarrow> js \<Rightarrow> exn + js" where
  "currentPrice_of selectedCurrencyId d =
     (case getProp d ''market_data'' of
        Inl e \<Rightarrow> Inl e
      | Inr m \<Rightarrow> Inr (js_or (optProp (optProp m ''current_price'') selectedCurrencyId) (Num 0)))"

definition priceChange24h_of :: "js \<Rightarrow> exn + js" where
  "priceChange24h_of d =
     (case getProp d ''market_data'' of
        Inl e \<Rightarrow> Inl e
      | Inr m \<Rightarrow> Inr (js_or (optProp m ''price_change_percentage_24h'') (Num 0)))"

definition image_of :: "js \<Rightarrow> exn + js" where
  "image_of d =
     (case getProp d ''image'' of
        Inl e \<Rightarrow> Inl e
      | Inr i \<Rightarrow> Inr (js_or (optProp i ''small'') (Str [])))"

text \<open>
  Lines 79-90, the argument of \<^verbatim>\<open>setCoinDetails\<close>, in evaluation order: the two
  constants, then the fields of the object literal from top to bottom.
\<close>

definition coinDetails_of :: "string \<Rightarrow> js \<Rightarrow> exn + CoinDetails" where
  "coinDetails_of selectedCurrencyId d =
     (case currentPrice_of selectedCurrencyId d of Inl e \<Rightarrow> Inl e | Inr currentPrice \<Rightarrow>
     (case priceChange24h_of d of Inl e \<Rightarrow> Inl e | Inr priceChange24h \<Rightarrow>
     (case getProp d ''id'' of Inl e \<Rightarrow> Inl e | Inr i \<Rightarrow>
     (case getProp d ''name'' of Inl e \<Rightarrow> Inl e | Inr n \<Rightarrow>
     (case symbol_upper d of Inl e \<Rightarrow> Inl e | Inr sy \<Rightarrow>
     (case image_of d of Inl e \<Rightarrow> Inl e | Inr im \<Rightarrow>
        Inr \<lparr> cd_id = i, cd_name = n, cd_symbol = sy, cd_image = im,
              current_price = currentPrice, price_change_percentage_24h = priceChange24h \<rparr>))))))"


section \<open>Numbers as text\<close>

text \<open>
  What the platform computes and the component only calls: the locale-dependent
  formatting of a date (\<^verbatim>\<open>new Date(v)\<close> followed by \<^verbatim>\<open>toLocaleTimeString\<close> or
  \<^verbatim>\<open>toLocaleDateString\<close> in the locale and time zone of the browser), and the
  conversions of values for which ECMAScript gives no closed form on the mathematical
  value. They are parameters of the model.
\<close>

record platform =
  toLocaleTimeString_hm :: "js \<Rightarrow> string"
  toLocaleDateString :: "js \<Rightarrow> string"
  toLocaleDateString_my :: "js \<Rightarrow> string"
  numberToString_other :: "real \<Rightarrow> string"
  nativeToString :: "string \<Rightarrow> string"
  toLocaleString_other :: "js \<Rightarrow> string"
  toNumber_other :: "js \<Rightarrow> real option"
  typeError_message :: string

text \<open>The integer nearest to a non-negative number, the larger one of two.\<close>

definition round_half_up :: "real \<Rightarrow> nat" where
  "round_half_up a = nat \<lfloor>a + 1 / 2\<rfloor>"

definition pad_left :: "nat \<Rightarrow> string \<Rightarrow> string" where
  "pad_left k s = replicate (k - length s) CHR ''0'' @ s"

text \<open>Trailing zeros are removed while more than \<open>m\<close> characters remain.\<close>

fun strip_zeros :: "nat \<Rightarrow> string \<Rightarrow> string" where
  "strip_zeros m s =
     (if m < length s \<and> last s = CHR ''0'' then strip_zeros m (butlast s) else s)"

declare strip_zeros.simps [simp del]

text \<open>
  \<^verbatim>\<open>Number.prototype.toString\<close> (and a number in a template literal). For a number
  with at most two fractional digits below \<open>10 ^ 21\<close>, which is what a chart price and
  the day count are, the text is the decimal expansion without trailing zeros.
\<close>

definition numberToString :: "platform \<Rightarrow> real \<Rightarrow> string" where
  "numberToString P x =
     (if \<bar>x\<bar> < 10 ^ 21 \<and> of_int \<lfloor>x * 100\<rfloor> = x * 100 then
        (let n = nat \<lfloor>\<bar>x\<bar> * 100\<rfloor>;
             fp = strip_zeros 0 (pad_left 2 (show_nat (n mod 100)))
         in (if x < 0 then ''-'' else []) @ show_nat (n div 100) @
            (if fp = [] then [] else ''.'' @ fp))
      else numberToString_other P x)"

text \<open>
  \<^verbatim>\<open>Number.prototype.toFixed(f)\<close>, ECMAScript 21.1.3.3: the sign, then the integer
  \<open>n\<close> for which \<open>n / 10 ^ f\<close> is nearest to the magnitude (the larger of two), padded
  to \<open>f + 1\<close> digits, with a point before the last \<open>f\<close> digits. From \<open>10 ^ 21\<close> on the
  result is that of \<^verbatim>\<open>toString\<close>.
\<close>

definition toFixed_digits :: "nat \<Rightarrow> real \<Rightarrow> string" where
  "toFixed_digits f x =
     (let n = round_half_up (\<bar>x\<bar> * 10 ^ f);
          m = pad_left (f + 1) (show_nat n);
          k = length m
      in (if x < 0 then ''-'' else []) @
         (if f = 0 then m else take (k - f) m @ ''.'' @ drop (k - f) m))"

definition toFixed :: "platform \<Rightarrow> nat \<Rightarrow> real \<Rightarrow> string" where
  "toFixed P f x = (if 10 ^ 21 \<le> \<bar>x\<bar> then numberToString P x else toFixed_digits f x)"

text \<open>The value of a decimal numeral: an optional minus, digits, a point, digits.\<close>

definition parse_unsigned :: "string \<Rightarrow> real" where
  "parse_unsigned s =
     (let ip = takeWhile (\<lambda>c. c \<noteq> CHR ''.'') s;
          fp = drop 1 (dropWhile (\<lambda>c. c \<noteq> CHR ''.'') s)
      in of_nat (parse_nat ip) + of_nat (parse_nat fp) / 10 ^ length fp)"

fun parse_decimal :: "string \<Rightarrow> real" where
  "parse_decimal [] = 0"
| "parse_decimal (c # s) =
     (if c = CHR ''-'' then - parse_unsigned s else parse_unsigned (c # s))"

text \<open>
  Line 112, \<^verbatim>\<open>+price.toFixed(2)\<close>: the text of \<^verbatim>\<open>toFixed\<close> read back as a number.
  From \<open>10 ^ 21\<close> on the text is that of \<^verbatim>\<open>toString\<close>, which reads back as the
  number itself.
\<close>

definition plus_toFixed2 :: "real \<Rightarrow> real" where
  "plus_toFixed2 x = (if 10 ^ 21 \<le> \<bar>x\<bar> then x else parse_decimal (toFixed_digits 2 x))"

text \<open>Groups of three digits from the right, separated by commas.\<close>

fun group3 :: "string \<Rightarrow> string" where
  "group3 s =
     (if length s \<le> 3 then s
      else group3 (take (length s - 3) s) @ '','' @ drop (length s - 3) s)"

declare group3.simps [simp del]

text \<open>
  \<^verbatim>\<open>Number.prototype.toLocaleString('en-US', {minimumFractionDigits: mn,
  maximumFractionDigits: mx})\<close>: the magnitude rounded to \<open>mx\<close> fractional digits
  (half away from zero), trailing zeros removed down to \<open>mn\<close> digits, the integer part
  grouped, a minus sign before a negative number.
\<close>

definition toLocaleString_enUS :: "nat \<Rightarrow> nat \<Rightarrow> real \<Rightarrow> string" where
  "toLocaleString_enUS mn mx x =
     (let n = round_half_up (\<bar>x\<bar> * 10 ^ mx);
          fp = strip_zeros mn (pad_left mx (show_nat (n mod 10 ^ mx)))
      in (if x < 0 then ''-'' else []) @ group3 (show_nat (n div 10 ^ mx)) @
         (if fp = [] then [] else ''.'' @ fp))"

text \<open>Elements separated by \<open>sep\<close> (\<^verbatim>\<open>Array.prototype.join\<close>).\<close>

fun join :: "string \<Rightarrow> string list \<Rightarrow> string" where
  "join sep [] = []"
| "join sep [x] = x"
| "join sep (x # y # ys) = x @ sep @ join sep (y # ys)"

text \<open>
  ToString, as a template literal applies it. An array is the join of its elements by
  commas, with nothing for a nullish element.
\<close>

fun js_toString :: "platform \<Rightarrow> js \<Rightarrow> string" where
  "js_toString P Undefined = ''undefined''"
| "js_toString P Null = ''null''"
| "js_toString P (JBool b) = (if b then ''true'' else ''false'')"
| "js_toString P (Num x) = numberToString P x"
| "js_toString P (Str s) = s"
| "js_toString P (Arr xs) =
     join '','' (map (\<lambda>v. if nullish v then [] else js_toString P v) xs)"
| "js_toString P (Obj kvs) = ''[object Object]''"
| "js_toString P (Native f) = nativeToString P f"

text \<open>\<^verbatim>\<open>v > 0\<close>: ToNumber, then the comparison; \<^verbatim>\<open>NaN > 0\<close> is false.\<close>

definition js_gt0 :: "platform \<Rightarrow> js \<Rightarrow> bool" where
  "js_gt0 P v =
     (case v of
        Num x \<Rightarrow> 0 < x
      | JBool b \<Rightarrow> b
      | Undefined \<Rightarrow> False
      | Null \<Rightarrow> False
      | _ \<Rightarrow> (case toNumber_other P v of None \<Rightarrow> False | Some x \<Rightarrow> 0 < x))"

section \<open>The price series (lines 25-28 and 97-114)\<close>

record ChartData =
  time :: string
  price :: real

text \<open>Lines 100-108. \<open>days\<close> is the state variable of line 42.\<close>

definition formatTime :: "platform \<Rightarrow> int \<Rightarrow> js \<Rightarrow> string" where
  "formatTime P days timestamp =
     (if days \<le> 1 then toLocaleTimeString_hm P timestamp
      else if days \<le> 30 then toLocaleDateString P timestamp
      else toLocaleDateString_my P timestamp)"

text \<open>
  The callback of line 110 on one element. The parameter pattern
  \<^verbatim>\<open>[timestamp, price]\<close> needs an iterable: an array gives its first two elements
  (\<^verbatim>\<open>undefined\<close> where it is shorter), a string its first two characters, anything else
  throws. \<^verbatim>\<open>price.toFixed\<close> exists on a number only.
\<close>

definition elem :: "js list \<Rightarrow> nat \<Rightarrow> js" where
  "elem xs i = (if i < length xs then xs ! i else Undefined)"

definition chart_point :: "platform \<Rightarrow> int \<Rightarrow> js \<Rightarrow> exn + ChartData" where
  "chart_point P days e =
     (case e of
        Arr xs \<Rightarrow>
          (case elem xs 1 of
             Num p \<Rightarrow> Inr \<lparr> time = formatTime P days (elem xs 0), price = plus_toFixed2 p \<rparr>
           | _ \<Rightarrow> Inl TypeError)
      | _ \<Rightarrow> Inl TypeError)"

text \<open>\<^verbatim>\<open>Array.prototype.map\<close>: in order, and the first throw ends it.\<close>

fun map_points :: "platform \<Rightarrow> int \<Rightarrow> js list \<Rightarrow> exn + ChartData list" where
  "map_points P days [] = Inr []"
| "map_points P days (e # es) =
     (case chart_point P days e of
        Inl x \<Rightarrow> Inl x
      | Inr p \<Rightarrow> (case map_points P days es of Inl x \<Rightarrow> Inl x | Inr ps \<Rightarrow> Inr (p # ps)))"

text \<open>
  Lines 110-113, \<^verbatim>\<open>chartRes.data.prices.map(...)\<close>: only an array has the method
  \<^verbatim>\<open>map\<close>.
\<close>

definition formattedChartData :: "platform \<Rightarrow> int \<Rightarrow> js \<Rightarrow> exn + ChartData list" where
  "formattedChartData P days c =
     (case getProp c ''prices'' of
        Inl e \<Rightarrow> Inl e
      | Inr (Arr es) \<Rightarrow> map_points P days es
      | Inr _ \<Rightarrow> Inl TypeError)"

section \<open>The component state (lines 40-48)\<close>

text \<open>
  The state variables the fetch cycle and the analysis generator read and write.
  \<open>days\<close> has no setter (line 42).
\<close>

record state =
  selectedCoinId :: string
  selectedCurrencyId :: string
  days :: int
  chartData :: "ChartData list"
  coinDetails :: "CoinDetails option"
  loading :: bool
  error :: "string option"
  analysisText :: js
  generatingAnalysis :: bool

definition initial_state :: state where
  "initial_state =
     \<lparr> selectedCoinId = ''bitcoin'', selectedCurrencyId = ''usd'', days = 7,
       chartData = [], coinDetails = None, loading = True, error = None,
       analysisText = Str [], generatingAnalysis = False \<rparr>"

section \<open>The fetch cycle (lines 65-135)\<close>

text \<open>
  The values \<^verbatim>\<open>fetchCoinData\<close> closes over: those of the render whose effect
  started the cycle, not those of the state when a response arrives.
\<close>

record selection =
  coinId :: string
  currencyId :: string
  rangeDays :: int

definition selection_of :: "state \<Rightarrow> selection" where
  "selection_of s =
     \<lparr> coinId = selectedCoinId s, currencyId = selectedCurrencyId s, rangeDays = days s \<rparr>"

text \<open>
  How an awaited \<^verbatim>\<open>axios.get\<close> settles: fulfilled with the response whose
  \<^verbatim>\<open>data\<close> is the parsed body, or rejected. Axios rejects with a CanceledError when
  the signal of the request is aborted, and with an AxiosError on a network failure or
  a status outside 2xx.
\<close>

datatype settled = Fulfilled js | Rejected exn

text \<open>\<^verbatim>\<open>axios.isCancel(err)\<close>\<close>

definition isCancel :: "exn \<Rightarrow> bool" where
  "isCancel e = (e = CanceledError)"

text \<open>Lines 70-71.\<close>

definition fetch_begin :: "state \<Rightarrow> state" where
  "fetch_begin s = s\<lparr> loading := True, error := None \<rparr>"

text \<open>Lines 116-124, the \<^verbatim>\<open>catch\<close> block.\<close>

definition catch_block :: "exn \<Rightarrow> state \<Rightarrow> state" where
  "catch_block err s =
     (if isCancel err then s
      else s\<lparr> error := Some ''Failed to fetch data. Please try again.'',
              coinDetails := None, chartData := [] \<rparr>)"

text \<open>Lines 125-127, the \<^verbatim>\<open>finally\<close> block.\<close>

definition finally_block :: "state \<Rightarrow> state" where
  "finally_block s = s\<lparr> loading := False \<rparr>"

text \<open>
  Lines 74-95, from the first \<^verbatim>\<open>await\<close> to the second: the state after it, and
  whether the second request was sent (otherwise the function has returned).
\<close>

definition resume_details :: "selection \<Rightarrow> settled \<Rightarrow> state \<Rightarrow> state \<times> bool" where
  "resume_details sel r s =
     (case r of
        Rejected err \<Rightarrow> (finally_block (catch_block err s), False)
      | Fulfilled d \<Rightarrow>
          (case coinDetails_of (currencyId sel) d of
             Inl err \<Rightarrow> (finally_block (catch_block err s), False)
           | Inr cd \<Rightarrow> (s\<lparr> coinDetails := Some cd \<rparr>, True)))"

text \<open>Lines 92-127, from the second \<^verbatim>\<open>await\<close> to the end.\<close>

definition resume_chart :: "platform \<Rightarrow> selection \<Rightarrow> settled \<Rightarrow> state \<Rightarrow> state" where
  "resume_chart P sel r s =
     (case r of
        Rejected err \<Rightarrow> finally_block (catch_block err s)
      | Fulfilled c \<Rightarrow>
          (case formattedChartData P (rangeDays sel) c of
             Inl err \<Rightarrow> finally_block (catch_block err s)
           | Inr pts \<Rightarrow> finally_block (s\<lparr> chartData := pts \<rparr>)))"

text \<open>
  Lines 69-128, \<^verbatim>\<open>fetchCoinData\<close> run from start to end with nothing in between:
  \<open>r1\<close> and \<open>r2\<close> are how its two requests settle.
\<close>

definition fetchCoinData :: "platform \<Rightarrow> selection \<Rightarrow> settled \<Rightarrow> settled \<Rightarrow> state \<Rightarrow> state" where
  "fetchCoinData P sel r1 r2 s =
     (case resume_details sel r1 (fetch_begin s) of
        (s1, True) \<Rightarrow> resume_chart P sel r2 s1
      | (s1, False) \<Rightarrow> s1)"

subsection \<open>What a cycle throws\<close>

text \<open>
  What the \<^verbatim>\<open>try\<close> block of lines 73-115 throws, if anything: the rejection of an
  awaited request, or the exception of the code that follows it.
\<close>

definition thrown_in_try :: "platform \<Rightarrow> selection \<Rightarrow> settled \<Rightarrow> settled \<Rightarrow> exn option" where
  "thrown_in_try P sel r1 r2 =
     (case r1 of
        Rejected e \<Rightarrow> Some e
      | Fulfilled d \<Rightarrow>
          (case coinDetails_of (currencyId sel) d of
             Inl e \<Rightarrow> Some e
           | Inr _ \<Rightarrow>
               (case r2 of
                  Rejected e \<Rightarrow> Some e
                | Fulfilled c \<Rightarrow>
                    (case formattedChartData P (rangeDays sel) c of
                       Inl e \<Rightarrow> Some e
                     | Inr _ \<Rightarrow> None))))"

subsection \<open>Cycles in flight\<close>

text \<open>
  The effect of line 65 runs again when the selection changes (line 135): its cleanup
  aborts the controller of the cycle in flight (line 133) and a new cycle starts
  (line 130). The aborted cycle is still suspended at its \<^verbatim>\<open>await\<close>; it resumes,
  with the rejection of the aborted request, after the new cycle has started.
\<close>

datatype phase = AwaitDetails | AwaitChart | Returned

record cycle =
  c_sel :: selection
  c_phase :: phase

record sys =
  ui :: state
  current :: cycle
  stale :: "cycle list"

text \<open>One cycle resumes with the settled value of the request it awaits.\<close>

definition resume :: "platform \<Rightarrow> cycle \<Rightarrow> settled \<Rightarrow> state \<Rightarrow> state \<times> cycle" where
  "resume P c r s =
     (case c_phase c of
        AwaitDetails \<Rightarrow>
          (case resume_details (c_sel c) r s of
             (s', go) \<Rightarrow> (s', c\<lparr> c_phase := (if go then AwaitChart else Returned) \<rparr>))
      | AwaitChart \<Rightarrow> (resume_chart P (c_sel c) r s, c\<lparr> c_phase := Returned \<rparr>)
      | Returned \<Rightarrow> (s, c))"

text \<open>Lines 130-134: the cleanup of the previous effect, then the new effect.\<close>

definition run_effect :: "sys \<Rightarrow> sys" where
  "run_effect y =
     \<lparr> ui = fetch_begin (ui y),
       current = \<lparr> c_sel = selection_of (ui y), c_phase = AwaitDetails \<rparr>,
       stale = stale y @ [current y] \<rparr>"

text \<open>
  What the network delivers for a request that was not aborted: a response with a
  status in 2xx and its parsed body, or a failure.
\<close>

datatype reply = Response js | Failure

fun settled_of :: "reply \<Rightarrow> settled" where
  "settled_of (Response d) = Fulfilled d"
| "settled_of Failure = Rejected AxiosError"

text \<open>
  The events: the two selectors (lines 377 and 390; React starts no render for a value
  equal to the state), the request of the current cycle settling, and the aborted request
  of a stale cycle settling, which it always does as a cancellation.
\<close>

datatype event =
    SetSelectedCoinId string
  | SetSelectedCurrencyId string
  | SettleCurrent reply
  | SettleStale nat

definition step :: "platform \<Rightarrow> sys \<Rightarrow> event \<Rightarrow> sys" where
  "step P y ev =
     (case ev of
        SetSelectedCoinId c \<Rightarrow>
          (if c = selectedCoinId (ui y) then y
           else run_effect (y\<lparr> ui := (ui y)\<lparr> selectedCoinId := c \<rparr> \<rparr>))
      | SetSelectedCurrencyId c \<Rightarrow>
          (if c = selectedCurrencyId (ui y) then y
           else run_effect (y\<lparr> ui := (ui y)\<lparr> selectedCurrencyId := c \<rparr> \<rparr>))
      | SettleCurrent r \<Rightarrow>
          (case resume P (current y) (settled_of r) (ui y) of
             (s', c') \<Rightarrow> y\<lparr> ui := s', current := c' \<rparr>)
      | SettleStale i \<Rightarrow>
          (if i < length (stale y) then
             (case resume P (stale y ! i) (Rejected CanceledError) (ui y) of
                (s', c') \<Rightarrow> y\<lparr> ui := s', stale := (stale y)[i := c'] \<rparr>)
           else y))"

definition run :: "platform \<Rightarrow> sys \<Rightarrow> event list \<Rightarrow> sys" where
  "run P y evs = foldl (step P) y evs"

text \<open>The component after its first render: the effect has run once.\<close>

definition mounted :: sys where
  "mounted =
     \<lparr> ui = fetch_begin initial_state,
       current = \<lparr> c_sel = selection_of initial_state, c_phase = AwaitDetails \<rparr>,
       stale = [] \<rparr>"


section \<open>The analysis generator (lines 138-222)\<close>

text \<open>
  An entry of \<^verbatim>\<open>ALL_SUPPORTED_CURRENCIES\<close>. The table is imported from
  \<^verbatim>\<open>../constants/crypto\<close> (line 8) and is a parameter of the model.
\<close>

record currency =
  cur_id :: string
  cur_name :: string
  cur_symbol :: string

text \<open>Lines 138-141.\<close>

definition getCurrencySymbol :: "currency list \<Rightarrow> string \<Rightarrow> string" where
  "getCurrencySymbol cat cid =
     (case find (\<lambda>c. cur_id c = cid) cat of Some c \<Rightarrow> cur_symbol c | None \<Rightarrow> [])"

text \<open>
  Line 162, \<^verbatim>\<open>coinDetails.current_price.toLocaleString('en-US', {minimumFractionDigits: 2,
  maximumFractionDigits: 6})\<close>: the number format on a number, the method of its own
  prototype on another value, a TypeError on a nullish one.
\<close>

definition price_text :: "platform \<Rightarrow> js \<Rightarrow> exn + string" where
  "price_text P v =
     (case v of
        Num x \<Rightarrow> Inr (toLocaleString_enUS 2 6 x)
      | Undefined \<Rightarrow> Inl TypeError
      | Null \<Rightarrow> Inl TypeError
      | _ \<Rightarrow> Inr (toLocaleString_other P v))"

text \<open>
  Line 163, \<^verbatim>\<open>coinDetails.price_change_percentage_24h.toFixed(2)\<close>: only a number has
  the method.
\<close>

definition change_text :: "platform \<Rightarrow> js \<Rightarrow> exn + string" where
  "change_text P v = (case v of Num x \<Rightarrow> Inr (toFixed P 2 x) | _ \<Rightarrow> Inl TypeError)"

definition nl :: string where
  "nl = [CHR 0x0A]"

text \<open>Line 165, the callback: \<^verbatim>\<open>`${d.time}: ${d.price}`\<close>.\<close>

definition point_text :: "platform \<Rightarrow> ChartData \<Rightarrow> string" where
  "point_text P d = time d @ '': '' @ numberToString P (price d)"

text \<open>Lines 161-167, the template literal with its line breaks and indentation.\<close>

definition prompt_of ::
  "platform \<Rightarrow> currency list \<Rightarrow> string \<Rightarrow> int \<Rightarrow> CoinDetails \<Rightarrow> ChartData list \<Rightarrow> exn + string" where
  "prompt_of P cat cid dys cd pts =
     (case price_text P (current_price cd) of Inl e \<Rightarrow> Inl e | Inr pr \<Rightarrow>
     (case change_text P (price_change_percentage_24h cd) of Inl e \<Rightarrow> Inl e | Inr ch \<Rightarrow>
        Inr (''Provide a brief market analysis for '' @ js_toString P (cd_name cd) @
             '' ('' @ cd_symbol cd @ '') in '' @ toUpperCase cid @ ''.'' @ nl @
             ''      Current Price: '' @ getCurrencySymbol cat cid @ pr @ nl @
             ''      24h Price Change: '' @ ch @ ''%'' @ nl @
             ''      Historical data points (last '' @ numberToString P (of_int dys) @
             '' days, time: price):'' @ nl @
             ''      '' @ join nl (map (point_text P) pts) @ nl @
             nl @
             ''      Focus on the recent price movement (up/down trend), volatility, and potential implications based on the provided data. Keep it concise, around 100-150 words.'')))"

text \<open>Lines 172-174 and 189-193: the request, with the payload before it is serialised.\<close>

record request =
  url :: string
  payload :: js

definition request_of :: "string \<Rightarrow> string \<Rightarrow> request" where
  "request_of apiKey prompt =
     \<lparr> url = ''https://generativelanguage.googleapis.com/v1beta/models/gemini-2.0-flash:generateContent?key='' @ apiKey,
       payload = Obj [(''contents'',
         Arr [Obj [(''role'', Str ''user''), (''parts'', Arr [Obj [(''text'', Str prompt)]])]])] \<rparr>"

text \<open>
  How the call of the provider ends: \<^verbatim>\<open>fetch\<close> rejects (with the message of the
  error), or there is a response with a status and a body, of which the component reads
  the text (\<^verbatim>\<open>response.text()\<close>) or the parsed value (\<^verbatim>\<open>response.json()\<close>); either
  read can reject, with a message.
\<close>

datatype llm_reply =
    FetchRejected string
  | HttpResponse nat "string + string" "string + js"

text \<open>What the \<^verbatim>\<open>try\<close> block of lines 171-214 comes to.\<close>

datatype attempt = SetText js | Unexpected | Thrown string

text \<open>
  Lines 205-214. A member access on a value just found truthy cannot throw; the two that
  can are \<^verbatim>\<open>result.candidates\<close> and the accesses on the first elements.
\<close>

definition text_of_result :: "platform \<Rightarrow> js \<Rightarrow> attempt" where
  "text_of_result P result =
     (case getProp result ''candidates'' of Inl _ \<Rightarrow> Thrown (typeError_message P) | Inr c \<Rightarrow>
        if \<not> truthy c then Unexpected
        else if \<not> js_gt0 P (optProp c ''length'') then Unexpected
        else
     (case getProp (optProp c ''0'') ''content'' of Inl _ \<Rightarrow> Thrown (typeError_message P) | Inr ct \<Rightarrow>
        if \<not> truthy ct then Unexpected
        else if \<not> truthy (optProp ct ''parts'') then Unexpected
        else if \<not> js_gt0 P (optProp (optProp ct ''parts'') ''length'') then Unexpected
        else
     (case getProp (optProp (optProp ct ''parts'') ''0'') ''text'' of
        Inl _ \<Rightarrow> Thrown (typeError_message P)
      | Inr t \<Rightarrow> SetText t)))"

text \<open>Lines 189-214, after the \<^verbatim>\<open>await\<close> of \<^verbatim>\<open>fetch\<close>.\<close>

definition after_fetch :: "platform \<Rightarrow> llm_reply \<Rightarrow> attempt" where
  "after_fetch P reply =
     (case reply of
        FetchRejected m \<Rightarrow> Thrown m
      | HttpResponse status txt json \<Rightarrow>
          if \<not> (200 \<le> status \<and> status \<le> 299) then
            (case txt of
               Inl m \<Rightarrow> Thrown m
             | Inr errorBody \<Rightarrow>
                 Thrown (''LLM API request failed with status '' @ show_nat status @ '': '' @ errorBody))
          else
            (case json of Inl m \<Rightarrow> Thrown m | Inr result \<Rightarrow> text_of_result P result))"

text \<open>Lines 215-217, the \<^verbatim>\<open>catch\<close> block, on the message of what was thrown.\<close>

definition catch_llm :: "string \<Rightarrow> state \<Rightarrow> state" where
  "catch_llm m s =
     s\<lparr> analysisText := Str (''Error generating analysis: '' @
            (if m = [] then ''Unknown error'' else m) @ ''. Check console for details.'') \<rparr>"

text \<open>Lines 218-221, the \<^verbatim>\<open>finally\<close> block.\<close>

definition finally_llm :: "state \<Rightarrow> state" where
  "finally_llm s = s\<lparr> generatingAnalysis := False \<rparr>"

text \<open>
  The call up to its first \<^verbatim>\<open>await\<close>: it has returned, or it has thrown outside
  the \<^verbatim>\<open>try\<close> block (the prompt is built before it, lines 161-167), or it waits for
  the provider.
\<close>

datatype pending = Completed state | Threw state exn | Awaiting state request

text \<open>
  Lines 149-188. \<open>apiKey\<close> is the constant of line 180, which the source asks to
  replace by a key.
\<close>

definition apiKey_placeholder :: string where
  "apiKey_placeholder = ''YOUR_GEMINI_API_KEY_HERE''"

definition generateAnalysis_begin :: "platform \<Rightarrow> currency list \<Rightarrow> string \<Rightarrow> state \<Rightarrow> pending" where
  "generateAnalysis_begin P cat apiKey s =
     (case coinDetails s of
        None \<Rightarrow> Completed (s\<lparr> analysisText := Str ''No data available to generate analysis.'' \<rparr>)
      | Some cd \<Rightarrow>
          if chartData s = [] then
            Completed (s\<lparr> analysisText := Str ''No data available to generate analysis.'' \<rparr>)
          else
            (let s1 = s\<lparr> generatingAnalysis := True, analysisText := Str ''Generating analysis...'' \<rparr>
             in case prompt_of P cat (selectedCurrencyId s) (days s) cd (chartData s) of
                  Inl e \<Rightarrow> Threw s1 e
                | Inr prompt \<Rightarrow>
                    if apiKey = [] \<or> apiKey = apiKey_placeholder then
                      Completed (finally_llm (catch_llm
                        ''Gemini API Key is not configured. Please set a valid API key or use environment variables.'' s1))
                    else Awaiting s1 (request_of apiKey prompt)))"

text \<open>Lines 189-221, when the provider has answered, on the state of that moment.\<close>

definition generateAnalysis_resume :: "platform \<Rightarrow> llm_reply \<Rightarrow> state \<Rightarrow> state" where
  "generateAnalysis_resume P reply s =
     finally_llm
       (case after_fetch P reply of
          SetText t \<Rightarrow> s\<lparr> analysisText := t \<rparr>
        | Unexpected \<Rightarrow>
            s\<lparr> analysisText := Str ''Failed to generate analysis. Unexpected LLM response structure.'' \<rparr>
        | Thrown m \<Rightarrow> catch_llm m s)"

text \<open>
  The whole call: the state it leaves, the requests it sent, and what it threw to its
  caller.
\<close>

record outcome =
  final :: state
  requests :: "request list"
  thrown :: "exn option"

definition generateAnalysis ::
  "platform \<Rightarrow> currency list \<Rightarrow> string \<Rightarrow> llm_reply \<Rightarrow> state \<Rightarrow> outcome" where
  "generateAnalysis P cat apiKey reply s =
     (case generateAnalysis_begin P cat apiKey s of
        Completed s1 \<Rightarrow> \<lparr> final = s1, requests = [], thrown = None \<rparr>
      | Threw s1 e \<Rightarrow> \<lparr> final = s1, requests = [], thrown = Some e \<rparr>
      | Awaiting s1 rq \<Rightarrow>
          \<lparr> final = generateAnalysis_resume P reply s1, requests = [rq], thrown = None \<rparr>)"

section \<open>Concrete instances\<close>

text \<open>
  A response of each provider, the snapshot and the series they give, a state that
  displays them, a currency table and a platform with fixed answers: the values at which
  the theorems below are instantiated.
\<close>

definition sample_details :: js where
  "sample_details =
     Obj [(''id'', Str ''bitcoin''), (''symbol'', Str ''btc''), (''name'', Str ''Bitcoin''),
          (''image'', Obj [(''small'', Str ''https://img.example/btc.png'')]),
          (''market_data'', Obj [(''current_price'', Obj [(''usd'', Num 65000), (''eur'', Num 60000)]),
                                (''price_change_percentage_24h'', Num (- 5 / 2))])]"

definition sample_snapshot :: CoinDetails where
  "sample_snapshot =
     \<lparr> cd_id = Str ''bitcoin'', cd_name = Str ''Bitcoin'', cd_symbol = ''BTC'',
       cd_image = Str ''https://img.example/btc.png'',
       current_price = Num 65000, price_change_percentage_24h = Num (- 5 / 2) \<rparr>"

definition sample_chart :: js where
  "sample_chart = Obj [(''prices'', Arr [Arr [Num 1762128000000, Num 65000]])]"

definition sample_points :: "ChartData list" where
  "sample_points = [\<lparr> time = ''11/3/2026'', price = 65000 \<rparr>]"

definition sample_state :: state where
  "sample_state =
     initial_state \<lparr> chartData := sample_points, coinDetails := Some sample_snapshot,
                     loading := False \<rparr>"



definition sample_platform :: platform where
  "sample_platform =
     \<lparr> toLocaleTimeString_hm = (\<lambda>_. ''09:30 AM''),
       toLocaleDateString = (\<lambda>_. ''11/3/2026''),
       toLocaleDateString_my = (\<lambda>_. ''Nov 2026''),
       numberToString_other = (\<lambda>_. ''1e+21''),
       nativeToString = (\<lambda>f. ''function '' @ f @ ''() { [native code] }''),
       toLocaleString_other = (\<lambda>_. ''[object Object]''),
       toNumber_other = (\<lambda>_. None),
       typeError_message = ''Cannot read properties of undefined'' \<rparr>"

section \<open>Decimal text and its value\<close>






lemma show_nat_nonempty: "show_nat n \<noteq> []"
  by (subst show_nat.simps) simp


















section \<open>The price of a point\<close>




section \<open>The snapshot of a response\<close>

lemma getProp_optProp: "getProp d k = Inr v \<Longrightarrow> getProp d k' = Inr (optProp d k')"
  by (cases d) (simp_all add: optProp_def)



lemma coinDetails_of_string_symbol:
  assumes "getProp d ''symbol'' = Inr (Str sy)"
  shows "coinDetails_of cur d =
     Inr \<lparr> cd_id = optProp d ''id'', cd_name = optProp d ''name'', cd_symbol = toUpperCase sy,
           cd_image = js_or (optProp (optProp d ''image'') ''small'') (Str []),
           current_price =
             js_or (optProp (optProp (optProp d ''market_data'') ''current_price'') cur) (Num 0),
           price_change_percentage_24h =
             js_or (optProp (optProp d ''market_data'') ''price_change_percentage_24h'') (Num 0) \<rparr>"
proof -
  note g = getProp_optProp [OF assms]
  show ?thesis
    using assms
    by (simp add: coinDetails_of_def currentPrice_of_def priceChange24h_of_def image_of_def
        symbol_upper_def g)
qed



text \<open>
  Claim C7, as amended. For every response whose symbol is a string, constructing the
  snapshot does not throw: a missing price, percentage or image is replaced by its
  default (0, 0, the empty string), and \<open>id\<close> and \<open>name\<close> are stored as they are
  found, \<^verbatim>\<open>undefined\<close> when they are missing.
\<close>

theorem snapshot_of_response_with_symbol:
  assumes "getProp d ''symbol'' = Inr (Str sy)"
  shows "coinDetails_of cur d =
     Inr \<lparr> cd_id = optProp d ''id'', cd_name = optProp d ''name'', cd_symbol = toUpperCase sy,
           cd_image = js_or (optProp (optProp d ''image'') ''small'') (Str []),
           current_price =
             js_or (optProp (optProp (optProp d ''market_data'') ''current_price'') cur) (Num 0),
           price_change_percentage_24h =
             js_or (optProp (optProp d ''market_data'') ''price_change_percentage_24h'') (Num 0) \<rparr>"
  using assms by (rule coinDetails_of_string_symbol)

theorem snapshot_of_response_with_symbol_witness:
  "getProp (Obj [(''symbol'', Str ''btc'')]) ''symbol'' = Inr (Str ''btc'') \<and>
   coinDetails_of ''usd'' (Obj [(''symbol'', Str ''btc'')]) =
     Inr \<lparr> cd_id = Undefined, cd_name = Undefined, cd_symbol = ''BTC'', cd_image = Str [],
           current_price = Num 0, price_change_percentage_24h = Num 0 \<rparr>"
proof -
  have h: "getProp (Obj [(''symbol'', Str ''btc'')]) ''symbol'' = Inr (Str ''btc'')"
    by (simp add: own_def)
  from snapshot_of_response_with_symbol [OF h, of "''usd''"] h
  show ?thesis
    by (simp add: optProp_def own_def js_or_def toUpperCase_def upper_char_def)
qed

text \<open>
  Claim C7 as stated fails: without a symbol the construction throws a TypeError, and
  a missing name is stored as \<^verbatim>\<open>undefined\<close>, not as the empty string.
\<close>

theorem snapshot_missing_symbol_counterexample:
  "coinDetails_of ''usd'' (Obj [(''id'', Str ''bitcoin''), (''name'', Str ''Bitcoin'')]) = Inl TypeError \<and>
   coinDetails_of ''usd'' (Obj [(''id'', Str ''bitcoin''), (''symbol'', Str ''btc'')]) =
     Inr \<lparr> cd_id = Str ''bitcoin'', cd_name = Undefined, cd_symbol = ''BTC'', cd_image = Str [],
           current_price = Num 0, price_change_percentage_24h = Num 0 \<rparr>"
  by (simp add: coinDetails_of_def currentPrice_of_def priceChange24h_of_def image_of_def
      symbol_upper_def optProp_def own_def js_or_def toUpperCase_def upper_char_def)


section \<open>Labels and failures of a cycle\<close>

lemma map_points_labels:
  "map_points P dys es = Inr pts \<Longrightarrow>
     length pts = length es \<and>
     (\<forall>i<length es. \<exists>xs p. es ! i = Arr xs \<and> elem xs 1 = Num p \<and>
        pts ! i = \<lparr> time = formatTime P dys (elem xs 0), price = plus_toFixed2 p \<rparr>)"
proof (induction es arbitrary: pts)
  case Nil
  then show ?case by simp
next
  case (Cons e es)
  from Cons.prems obtain pt ps where pt: "chart_point P dys e = Inr pt"
    and ps: "map_points P dys es = Inr ps" and pts: "pts = pt # ps"
    by (auto split: sum.splits)
  from pt obtain xs p where e: "e = Arr xs" "elem xs 1 = Num p"
    "pt = \<lparr> time = formatTime P dys (elem xs 0), price = plus_toFixed2 p \<rparr>"
    by (auto simp: chart_point_def split: js.splits)
  from Cons.IH [OF ps] have len: "length ps = length es"
    and rest: "\<forall>i<length es. \<exists>xs p. es ! i = Arr xs \<and> elem xs 1 = Num p \<and>
        ps ! i = \<lparr> time = formatTime P dys (elem xs 0), price = plus_toFixed2 p \<rparr>"
    by simp_all
  show ?case
  proof (intro conjI allI impI)
    show "length pts = length (e # es)" using pts len by simp
  next
    fix i assume "i < length (e # es)"
    then show "\<exists>xs p. (e # es) ! i = Arr xs \<and> elem xs 1 = Num p \<and>
        pts ! i = \<lparr> time = formatTime P dys (elem xs 0), price = plus_toFixed2 p \<rparr>"
      using e rest pts by (cases i) auto
  qed
qed

text \<open>
  Claim C4. For every timestamp of a fetched series the label of the point is made by
  the formatter that the day range selects: hour and minute up to one day, the calendar
  date up to thirty days, abbreviated month and year beyond.
\<close>

theorem label_follows_range_policy:
  assumes "formattedChartData P dys c = Inr pts"
  shows "\<exists>es. getProp c ''prices'' = Inr (Arr es) \<and> length pts = length es \<and>
     (\<forall>i<length es. \<exists>xs. es ! i = Arr xs \<and>
        (dys \<le> 1 \<longrightarrow> time (pts ! i) = toLocaleTimeString_hm P (elem xs 0)) \<and>
        (1 < dys \<and> dys \<le> 30 \<longrightarrow> time (pts ! i) = toLocaleDateString P (elem xs 0)) \<and>
        (30 < dys \<longrightarrow> time (pts ! i) = toLocaleDateString_my P (elem xs 0)))"
proof -
  from assms obtain es where es: "getProp c ''prices'' = Inr (Arr es)"
    and mp: "map_points P dys es = Inr pts"
    by (auto simp: formattedChartData_def split: sum.splits js.splits)
  from map_points_labels [OF mp] have len: "length pts = length es"
    and lab: "\<forall>i<length es. \<exists>xs p. es ! i = Arr xs \<and> elem xs 1 = Num p \<and>
        pts ! i = \<lparr> time = formatTime P dys (elem xs 0), price = plus_toFixed2 p \<rparr>"
    by simp_all
  have "\<forall>i<length es. \<exists>xs. es ! i = Arr xs \<and>
        (dys \<le> 1 \<longrightarrow> time (pts ! i) = toLocaleTimeString_hm P (elem xs 0)) \<and>
        (1 < dys \<and> dys \<le> 30 \<longrightarrow> time (pts ! i) = toLocaleDateString P (elem xs 0)) \<and>
        (30 < dys \<longrightarrow> time (pts ! i) = toLocaleDateString_my P (elem xs 0))"
  proof (intro allI impI)
    fix i assume "i < length es"
    with lab obtain xs p where "es ! i = Arr xs"
      "pts ! i = \<lparr> time = formatTime P dys (elem xs 0), price = plus_toFixed2 p \<rparr>"
      by blast
    then show "\<exists>xs. es ! i = Arr xs \<and>
        (dys \<le> 1 \<longrightarrow> time (pts ! i) = toLocaleTimeString_hm P (elem xs 0)) \<and>
        (1 < dys \<and> dys \<le> 30 \<longrightarrow> time (pts ! i) = toLocaleDateString P (elem xs 0)) \<and>
        (30 < dys \<longrightarrow> time (pts ! i) = toLocaleDateString_my P (elem xs 0))"
      by (simp add: formatTime_def)
  qed
  with es len show ?thesis by blast
qed

lemma sample_chart_formatted:
  "formattedChartData sample_platform dys sample_chart =
     Inr [\<lparr> time = formatTime sample_platform dys (Num 1762128000000), price = plus_toFixed2 65000 \<rparr>]"
  by (simp add: formattedChartData_def sample_chart_def own_def chart_point_def elem_def)

theorem label_follows_range_policy_witness:
  "formattedChartData sample_platform 1 sample_chart =
     Inr [\<lparr> time = ''09:30 AM'', price = plus_toFixed2 65000 \<rparr>] \<and>
   formattedChartData sample_platform 7 sample_chart =
     Inr [\<lparr> time = ''11/3/2026'', price = plus_toFixed2 65000 \<rparr>] \<and>
   formattedChartData sample_platform 90 sample_chart =
     Inr [\<lparr> time = ''Nov 2026'', price = plus_toFixed2 65000 \<rparr>] \<and>
   (\<exists>es. getProp sample_chart ''prices'' = Inr (Arr es) \<and> length es = 1 \<and>
      (\<exists>xs. es ! 0 = Arr xs \<and>
         ''09:30 AM'' = toLocaleTimeString_hm sample_platform (elem xs 0) \<and>
         ''11/3/2026'' = toLocaleDateString sample_platform (elem xs 0) \<and>
         ''Nov 2026'' = toLocaleDateString_my sample_platform (elem xs 0)))"
proof -
  have f1: "formattedChartData sample_platform 1 sample_chart =
     Inr [\<lparr> time = ''09:30 AM'', price = plus_toFixed2 65000 \<rparr>]"
    by (simp only: sample_chart_formatted) (simp add: formatTime_def sample_platform_def)
  have f7: "formattedChartData sample_platform 7 sample_chart =
     Inr [\<lparr> time = ''11/3/2026'', price = plus_toFixed2 65000 \<rparr>]"
    by (simp only: sample_chart_formatted) (simp add: formatTime_def sample_platform_def)
  have f90: "formattedChartData sample_platform 90 sample_chart =
     Inr [\<lparr> time = ''Nov 2026'', price = plus_toFixed2 65000 \<rparr>]"
    by (simp only: sample_chart_formatted) (simp add: formatTime_def sample_platform_def)
  have g: "getProp sample_chart ''prices'' = Inr (Arr [Arr [Num 1762128000000, Num 65000]])"
    by (simp add: sample_chart_def own_def)
  from label_follows_range_policy [OF f1] g
  have a: "\<exists>xs. [Arr [Num 1762128000000, Num 65000]] ! 0 = Arr xs \<and>
      ''09:30 AM'' = toLocaleTimeString_hm sample_platform (elem xs 0)"
    by fastforce
  from label_follows_range_policy [OF f7] g
  have b: "\<exists>xs. [Arr [Num 1762128000000, Num 65000]] ! 0 = Arr xs \<and>
      ''11/3/2026'' = toLocaleDateString sample_platform (elem xs 0)"
    by fastforce
  from label_follows_range_policy [OF f90] g
  have c: "\<exists>xs. [Arr [Num 1762128000000, Num 65000]] ! 0 = Arr xs \<and>
      ''Nov 2026'' = toLocaleDateString_my sample_platform (elem xs 0)"
    by fastforce
  from a b c g f1 f7 f90 show ?thesis by auto
qed


lemma catch_finally_failure:
  "\<not> isCancel e \<Longrightarrow>
     finally_block (catch_block e s) =
       s\<lparr> error := Some ''Failed to fetch data. Please try again.'', coinDetails := None,
           chartData := [], loading := False \<rparr>"
  by (simp add: finally_block_def catch_block_def)

text \<open>
  Claim C3. When a fetch cycle that was not cancelled fails (a request is rejected, as
  axios does on a network failure and on a status outside 2xx, or the body of a response
  makes the code throw, on either step), the state it leaves has the error message, no
  snapshot and an empty series, whatever was displayed before.
\<close>

theorem failed_cycle_clears:
  assumes "thrown_in_try P sel r1 r2 = Some e" and "\<not> isCancel e"
  shows "error (fetchCoinData P sel r1 r2 s) = Some ''Failed to fetch data. Please try again.'' \<and>
     coinDetails (fetchCoinData P sel r1 r2 s) = None \<and>
     chartData (fetchCoinData P sel r1 r2 s) = [] \<and>
     loading (fetchCoinData P sel r1 r2 s) = False"
  using assms
  by (auto simp: thrown_in_try_def fetchCoinData_def resume_details_def resume_chart_def
      catch_finally_failure split: settled.splits sum.splits)


lemma sample_details_symbol: "getProp sample_details ''symbol'' = Inr (Str ''btc'')"
  by (simp add: sample_details_def own_def)

theorem failed_cycle_clears_witness:
  "thrown_in_try sample_platform (selection_of sample_state) (Rejected AxiosError) (Rejected AxiosError)
      = Some AxiosError \<and>
   thrown_in_try sample_platform (selection_of sample_state) (Fulfilled (Obj [])) (Rejected AxiosError)
      = Some TypeError \<and>
   thrown_in_try sample_platform (selection_of sample_state) (Fulfilled sample_details) (Fulfilled (Obj []))
      = Some TypeError \<and>
   \<not> isCancel AxiosError \<and> \<not> isCancel TypeError \<and>
   coinDetails sample_state \<noteq> None \<and> chartData sample_state \<noteq> [] \<and>
   coinDetails (fetchCoinData sample_platform (selection_of sample_state)
      (Rejected AxiosError) (Rejected AxiosError) sample_state) = None \<and>
   chartData (fetchCoinData sample_platform (selection_of sample_state)
      (Fulfilled (Obj [])) (Rejected AxiosError) sample_state) = [] \<and>
   error (fetchCoinData sample_platform (selection_of sample_state)
      (Fulfilled sample_details) (Fulfilled (Obj [])) sample_state)
      = Some ''Failed to fetch data. Please try again.''"
proof -
  have a: "thrown_in_try sample_platform (selection_of sample_state) (Rejected AxiosError)
      (Rejected AxiosError) = Some AxiosError"
    by (simp add: thrown_in_try_def)
  have b: "thrown_in_try sample_platform (selection_of sample_state) (Fulfilled (Obj []))
      (Rejected AxiosError) = Some TypeError"
    by (simp add: thrown_in_try_def coinDetails_of_def currentPrice_of_def priceChange24h_of_def
        symbol_upper_def optProp_def own_def)
  have c: "thrown_in_try sample_platform (selection_of sample_state) (Fulfilled sample_details)
      (Fulfilled (Obj [])) = Some TypeError"
    by (simp add: thrown_in_try_def coinDetails_of_string_symbol [OF sample_details_symbol]
        formattedChartData_def own_def)
  have na: "\<not> isCancel AxiosError" and nt: "\<not> isCancel TypeError"
    by (simp_all add: isCancel_def)
  have s: "coinDetails sample_state \<noteq> None \<and> chartData sample_state \<noteq> []"
    by (simp add: sample_state_def sample_points_def)
  from failed_cycle_clears [OF a na, of sample_state]
       failed_cycle_clears [OF b nt, of sample_state]
       failed_cycle_clears [OF c nt, of sample_state] a b c na nt s
  show ?thesis by simp
qed

text \<open>
  Claim C8. Called without a snapshot or with an empty series, the analysis generator
  returns at once: it sets the no-data text, sends no request and changes nothing else.
\<close>

theorem no_data_short_circuit:
  assumes "coinDetails s = None \<or> chartData s = []"
  shows "generateAnalysis P cat apiKey reply s =
     \<lparr> final = s\<lparr> analysisText := Str ''No data available to generate analysis.'' \<rparr>,
       requests = [], thrown = None \<rparr>"
  using assms
  by (auto simp: generateAnalysis_def generateAnalysis_begin_def split: option.splits)

theorem no_data_short_circuit_witness:
  "(coinDetails initial_state = None \<or> chartData initial_state = []) \<and>
   (coinDetails (sample_state\<lparr> chartData := [] \<rparr>) = None \<or>
      chartData (sample_state\<lparr> chartData := [] \<rparr>) = []) \<and>
   requests (generateAnalysis sample_platform [] ''key'' (FetchRejected ''Failed to fetch'')
      initial_state) = [] \<and>
   requests (generateAnalysis sample_platform [] ''key'' (FetchRejected ''Failed to fetch'')
      (sample_state\<lparr> chartData := [] \<rparr>)) = [] \<and>
   analysisText (final (generateAnalysis sample_platform [] ''key'' (FetchRejected ''Failed to fetch'')
      (sample_state\<lparr> chartData := [] \<rparr>))) = Str ''No data available to generate analysis.''"
proof -
  have a: "coinDetails initial_state = None \<or> chartData initial_state = []"
    by (simp add: initial_state_def)
  have b: "coinDetails (sample_state\<lparr> chartData := [] \<rparr>) = None \<or>
      chartData (sample_state\<lparr> chartData := [] \<rparr>) = []"
    by simp
  from no_data_short_circuit [OF a, of sample_platform "[]" "''key''" "FetchRejected ''Failed to fetch''"]
       no_data_short_circuit [OF b, of sample_platform "[]" "''key''" "FetchRejected ''Failed to fetch''"]
       a b
  show ?thesis by simp
qed



section \<open>The frame of the analysis generator\<close>












section \<open>The prompt\<close>




















section \<open>Superseded cycles\<close>

lemma resume_cancelled:
  "resume P c (Rejected CanceledError) s =
     (if c_phase c = Returned then (s, c)
      else (s\<lparr> loading := False \<rparr>, c\<lparr> c_phase := Returned \<rparr>))"
  by (cases "c_phase c")
     (simp_all add: resume_def resume_details_def resume_chart_def catch_block_def
        finally_block_def isCancel_def)

lemma step_stale:
  "current (step P y (SettleStale i)) = current y \<and>
   (ui (step P y (SettleStale i)) = ui y \<or> ui (step P y (SettleStale i)) = (ui y)\<lparr> loading := False \<rparr>)"
  by (simp add: step_def resume_cancelled)
















lemma select_coin_mounted:
  "step P mounted (SetSelectedCoinId ''ethereum'') =
     run_effect (mounted\<lparr> ui := (ui mounted)\<lparr> selectedCoinId := ''ethereum'' \<rparr> \<rparr>)"
  by (simp add: step_def mounted_def fetch_begin_def initial_state_def)




text \<open>
  Claim C1, on the code. When the aborted request of a superseded cycle settles, the
  \<^verbatim>\<open>catch\<close> block leaves \<open>chartData\<close>, \<open>coinDetails\<close> and \<open>error\<close> as they are,
  but the \<^verbatim>\<open>finally\<close> block of line 126 runs all the same: after the user has
  selected ethereum, \<open>loading\<close> is true for the new cycle, and the completion of the
  cancelled cycle sets it to false while the new cycle still awaits its first response.
\<close>

theorem cancelled_completion_resets_loading:
  "loading (ui (run sample_platform mounted [SetSelectedCoinId ''ethereum''])) = True \<and>
   c_phase (current (run sample_platform mounted [SetSelectedCoinId ''ethereum'', SettleStale 0]))
     = AwaitDetails \<and>
   loading (ui (run sample_platform mounted [SetSelectedCoinId ''ethereum'', SettleStale 0])) = False \<and>
   chartData (ui (step P y (SettleStale i))) = chartData (ui y) \<and>
   coinDetails (ui (step P y (SettleStale i))) = coinDetails (ui y) \<and>
   error (ui (step P y (SettleStale i))) = error (ui y)"
proof -
  have "ui (step P y (SettleStale i)) = ui y \<or>
      ui (step P y (SettleStale i)) = (ui y)\<lparr> loading := False \<rparr>"
    using step_stale [of P y i] by simp
  then have fr: "chartData (ui (step P y (SettleStale i))) = chartData (ui y) \<and>
      coinDetails (ui (step P y (SettleStale i))) = coinDetails (ui y) \<and>
      error (ui (step P y (SettleStale i))) = error (ui y)"
    by auto
  have ev: "loading (ui (run sample_platform mounted [SetSelectedCoinId ''ethereum''])) = True \<and>
      c_phase (current (run sample_platform mounted [SetSelectedCoinId ''ethereum'', SettleStale 0]))
        = AwaitDetails \<and>
      loading (ui (run sample_platform mounted [SetSelectedCoinId ''ethereum'', SettleStale 0])) = False"
    by (simp add: run_def select_coin_mounted)
       (simp add: step_def run_effect_def mounted_def fetch_begin_def resume_cancelled)
  from ev fr show ?thesis by simp
qed


end
